theory Spec2Isabelle
  imports Main "HOL-Library.Word"
begin

unbundle bit_operations_syntax

section \<open>Error values\<close>

text \<open>
  Go values of interface type \<^verbatim>\<open>error\<close> that this program creates or receives.
  The four named kinds are the types declared next to the constructors
  (\<^verbatim>\<open>ResponseWriteError struct{ error }\<close>, \<^verbatim>\<open>InvalidURLError string\<close>,
  \<^verbatim>\<open>TooManyRequestsError struct{}\<close>, \<^verbatim>\<open>InvalidSecretError struct{}\<close>).
  \<open>ErrAbortHandler\<close> is the sentinel \<^verbatim>\<open>http.ErrAbortHandler\<close>, \<open>OtherError\<close> is
  any other error value, identified by its message, and \<open>StructuredError\<close> is a
  \<^verbatim>\<open>*ierrors.Error\<close>.

  The type \<open>ierror\<close> is \<^verbatim>\<open>ierrors.Error\<close>.
  Modelled from the spec: package \<^verbatim>\<open>ierrors\<close> is not part of the sources at hand. The
  StructuredError of the specification has a cause, a status code (an internal-error
  status if unset), a public message (a generic message when absent) and a report
  flag; the stack metadata is used for diagnostic rendering only and is left out.
\<close>

datatype go_error =
    ErrAbortHandler
  | ResponseWriteError go_error
  | InvalidURLError string
  | TooManyRequestsError
  | InvalidSecretError
  | OtherError string
  | StructuredError ierror
and ierror =
    IError (cause: go_error) (statusCode: "int option")
           (publicMessage: "string option") (shouldReport: bool)

text \<open>The options of \<^verbatim>\<open>ierrors.Wrap\<close>. Modelled from the spec: options set the status
  code, the public message and the report flag.\<close>

datatype wrap_option =
    WithStatusCode int
  | WithPublicMessage string
  | WithShouldReport bool

fun apply_option :: "wrap_option \<Rightarrow> ierror \<Rightarrow> ierror" where
  "apply_option (WithStatusCode s) (IError c st pm sr) = IError c (Some s) pm sr"
| "apply_option (WithPublicMessage m) (IError c st pm sr) = IError c st (Some m) sr"
| "apply_option (WithShouldReport b) (IError c st pm sr) = IError c st pm b"

text \<open>Modelled from the spec: \<^verbatim>\<open>ierrors.Wrap(cause, skipFrames, options...)\<close> normalizes
  any failure. A cause that is a StructuredError already is returned unchanged; options
  set their fields, and unset ones keep prior values or the defaults (status 500, the
  generic message, report = true).\<close>

definition Wrap :: "go_error \<Rightarrow> nat \<Rightarrow> wrap_option list \<Rightarrow> ierror" where
  "Wrap err stackSkip opts =
     fold apply_option opts
       (case err of
          StructuredError e \<Rightarrow> e
        | _ \<Rightarrow> IError err None None True)"

definition StatusInternalServerError :: int where
  "StatusInternalServerError = 500"

definition StatusOK :: int where
  "StatusOK = 200"

definition StatusTooManyRequests :: int where
  "StatusTooManyRequests = 429"

definition StatusForbidden :: int where
  "StatusForbidden = 403"

text \<open>Modelled from the spec: the accessors \<^verbatim>\<open>statusCode()\<close>, \<^verbatim>\<open>publicMessage()\<close>
  and \<^verbatim>\<open>shouldReport()\<close> with their defaults.\<close>

definition StatusCode :: "ierror \<Rightarrow> int" where
  "StatusCode e = (case statusCode e of None \<Rightarrow> StatusInternalServerError | Some s \<Rightarrow> s)"

definition PublicMessage :: "ierror \<Rightarrow> string" where
  "PublicMessage e = (case publicMessage e of None \<Rightarrow> ''Internal Server Error'' | Some m \<Rightarrow> m)"

definition ShouldReport :: "ierror \<Rightarrow> bool" where
  "ShouldReport e = shouldReport e"

text \<open>
  The method \<^verbatim>\<open>Error()\<close> of each kind:
  \<^verbatim>\<open>ResponseWriteError\<close> formats \<^verbatim>\<open>"Failed to write response: %s"\<close> with its cause,
  \<^verbatim>\<open>InvalidURLError\<close> is its own string, the two empty structs return fixed texts.
  Modelled from the spec: the full diagnostic message of a StructuredError is the
  diagnostic detail of its cause.
\<close>

fun Error_msg :: "go_error \<Rightarrow> string"
and ierror_Error :: "ierror \<Rightarrow> string" where
  "Error_msg ErrAbortHandler = ''net/http: abort Handler''"
| "Error_msg (ResponseWriteError e) = ''Failed to write response: '' @ Error_msg e"
| "Error_msg (InvalidURLError s) = s"
| "Error_msg TooManyRequestsError = ''Too many requests''"
| "Error_msg InvalidSecretError = ''Invalid secret''"
| "Error_msg (OtherError s) = s"
| "Error_msg (StructuredError e) = ierror_Error e"
| "ierror_Error (IError c st pm sr) = Error_msg c"

subsection \<open>The constructors of the taxonomy\<close>

definition newResponseWriteError :: "go_error \<Rightarrow> ierror" where
  "newResponseWriteError err =
     Wrap (ResponseWriteError err) 1 [WithPublicMessage ''Failed to write response'']"

text \<open>\<^verbatim>\<open>newInvalidURLErrorf(status, format, args...)\<close>: the argument \<open>msg\<close> is the
  result of \<^verbatim>\<open>fmt.Sprintf(format, args...)\<close>.\<close>

definition newInvalidURLErrorf :: "int \<Rightarrow> string \<Rightarrow> ierror" where
  "newInvalidURLErrorf status msg =
     Wrap (InvalidURLError msg) 1
       [WithStatusCode status, WithPublicMessage ''Invalid URL'', WithShouldReport False]"

definition newTooManyRequestsError :: ierror where
  "newTooManyRequestsError =
     Wrap TooManyRequestsError 1
       [WithStatusCode StatusTooManyRequests, WithPublicMessage ''Too many requests'',
        WithShouldReport False]"

definition newInvalidSecretError :: ierror where
  "newInvalidSecretError =
     Wrap InvalidSecretError 1
       [WithStatusCode StatusForbidden, WithPublicMessage ''Forbidden'',
        WithShouldReport False]"

section \<open>Requests, effects and handlers\<close>

text \<open>
  Machine integers: Go's \<^verbatim>\<open>int\<close> on a 64-bit target and \<^verbatim>\<open>time.Duration\<close>
  (an \<^verbatim>\<open>int64\<close> count of nanoseconds) are 64-bit words read with \<open>sint\<close>.
\<close>

type_synonym go_int = "64 word"
type_synonym duration = "64 word"
type_synonym byte = "8 word"

text \<open>
  The configuration surface this program reads (package \<^verbatim>\<open>config\<close>), one field per
  variable the code mentions.
\<close>

record config =
  Network :: string
  Bind :: string
  PathPrefix :: string
  MaxClients :: go_int
  ReadRequestTimeout :: go_int
  KeepAliveTimeout :: go_int
  AllowOrigin :: string
  Secret :: string
  DevelopmentErrorsMode :: bool

text \<open>
  A request as far as the code reads it: method, path and header, the diagnostic
  context of the error reporter (absent until \<^verbatim>\<open>errorreport.StartRequest\<close>), and
  whether a metrics span is attached to its context.
\<close>

record request =
  req_method :: string
  req_path :: string
  req_header :: "string \<rightharpoonup> string"
  req_diag :: "(string \<times> string) list option"
  req_span :: bool

text \<open>\<^verbatim>\<open>r.Header.Get(key)\<close>: the value stored under the key, the empty string if none.\<close>

definition Header_Get :: "request \<Rightarrow> string \<Rightarrow> string" where
  "Header_Get r k = (case req_header r k of None \<Rightarrow> [] | Some v \<Rightarrow> v)"

text \<open>
  Everything a handler does to the outside is an event, appended to the trace of the
  request in program order: calls on the response writer (\<^verbatim>\<open>rw.Header().Set\<close>,
  \<^verbatim>\<open>rw.WriteHeader\<close>, \<^verbatim>\<open>rw.Write\<close>), the response logger, the error reporter and the
  metrics span.
\<close>

datatype event =
    HeaderSet string string
  | WriteHeader int
  | Write string
  | LogResponse string request int "ierror option"
  | Report go_error request
  | MetricsStart
  | MetricsCancel

text \<open>
  A value passed to \<^verbatim>\<open>panic\<close> and handed back by \<^verbatim>\<open>recover()\<close>, hence not
  \<^verbatim>\<open>nil\<close>: either it implements the interface \<^verbatim>\<open>error\<close> (runtime errors do), or
  it is some other value (a string, say), identified by its text.
\<close>

datatype panic_value =
    PanicError go_error
  | PanicValue string

text \<open>
  A \<^verbatim>\<open>router.RouteHandler\<close> takes the request id, the response writer and the request.
  The response writer is the trace so far; the handler returns the trace it leaves and,
  if it panicked, the value of the panic. What was written before a panic stays written.
\<close>

type_synonym handler = "string \<Rightarrow> request \<Rightarrow> event list \<Rightarrow> panic_value option \<times> event list"

subsection \<open>Collaborators\<close>

text \<open>Modelled from the spec: \<^verbatim>\<open>errorreport.StartRequest\<close> begins a per-request
  diagnostic context, and \<^verbatim>\<open>errorreport.SetMetadata\<close> tags it.\<close>

definition errorreport_StartRequest :: "request \<Rightarrow> request" where
  "errorreport_StartRequest r = r\<lparr>req_diag := Some []\<rparr>"

definition errorreport_SetMetadata :: "request \<Rightarrow> string \<Rightarrow> string \<Rightarrow> request" where
  "errorreport_SetMetadata r k v =
     (case req_diag r of
        None \<Rightarrow> r
      | Some kvs \<Rightarrow> r\<lparr>req_diag := Some (kvs @ [(k, v)])\<rparr>)"

text \<open>
  \<^verbatim>\<open>subtle.ConstantTimeCompare\<close> and \<^verbatim>\<open>subtle.ConstantTimeByteEq\<close> of Go's standard
  library: unequal lengths give 0 at once; otherwise the bytewise XORs are OR-ed into
  one byte \<open>v\<close>, and the result is \<^verbatim>\<open>int((uint32(v^0) - 1) >> 31)\<close>.
\<close>

fun or_xor :: "byte \<Rightarrow> byte list \<Rightarrow> byte list \<Rightarrow> byte" where
  "or_xor v (a # x) (b # y) = or_xor (v OR (a XOR b)) x y"
| "or_xor v _ _ = v"

definition ConstantTimeByteEq :: "byte \<Rightarrow> byte \<Rightarrow> int" where
  "ConstantTimeByteEq x y = uint (drop_bit 31 ((ucast (x XOR y) :: 32 word) - 1))"

definition ConstantTimeCompare :: "byte list \<Rightarrow> byte list \<Rightarrow> int" where
  "ConstantTimeCompare x y =
     (if length x \<noteq> length y then 0 else ConstantTimeByteEq (or_xor 0 x y) 0)"

text \<open>The conversion \<^verbatim>\<open>[]byte(s)\<close> of a string.\<close>

definition bytes_of :: "string \<Rightarrow> byte list" where
  "bytes_of s = map (\<lambda>c. word_of_nat (of_char c)) s"

section \<open>Middleware\<close>

text \<open>\<^verbatim>\<open>withMetrics\<close>: the argument \<open>enabled\<close> is \<^verbatim>\<open>metrics.Enabled()\<close>. The deferred
  \<^verbatim>\<open>metricsCancel\<close> runs on return and on panic alike, and the panic goes on.\<close>

definition withMetrics :: "bool \<Rightarrow> handler \<Rightarrow> handler" where
  "withMetrics enabled h =
     (if \<not> enabled then h
      else (\<lambda>reqID r rw.
        (case h reqID (r\<lparr>req_span := True\<rparr>) (rw @ [MetricsStart]) of
           (p, rw') \<Rightarrow> (p, rw' @ [MetricsCancel]))))"

definition withCORS :: "config \<Rightarrow> handler \<Rightarrow> handler" where
  "withCORS cfg h =
     (\<lambda>reqID r rw.
        h reqID r
          (if length (AllowOrigin cfg) > 0
           then rw @ [HeaderSet ''Access-Control-Allow-Origin'' (AllowOrigin cfg),
                      HeaderSet ''Access-Control-Allow-Methods'' ''GET, OPTIONS'']
           else rw))"

definition withSecret :: "config \<Rightarrow> handler \<Rightarrow> handler" where
  "withSecret cfg h =
     (if length (Secret cfg) = 0 then h
      else
        (let authHeader = bytes_of (''Bearer '' @ Secret cfg) in
         (\<lambda>reqID r rw.
            if ConstantTimeCompare (bytes_of (Header_Get r ''Authorization'')) authHeader = 1
            then h reqID r rw
            else (Some (PanicError (StructuredError newInvalidSecretError)), rw))))"

text \<open>
  \<^verbatim>\<open>withPanicHandler\<close>. The deferred function sees the value of \<^verbatim>\<open>recover()\<close>:
  nothing recovered, nothing done. \<^verbatim>\<open>http.ErrAbortHandler\<close> and a value that is no
  \<^verbatim>\<open>error\<close> are raised again. Any other error is wrapped, reported if it says so,
  logged and rendered.
\<close>

definition withPanicHandler :: "config \<Rightarrow> handler \<Rightarrow> handler" where
  "withPanicHandler cfg h =
     (\<lambda>reqID r0 rw.
        let r = errorreport_SetMetadata (errorreport_StartRequest r0) ''Request ID'' reqID in
        (case h reqID r rw of
           (None, rw1) \<Rightarrow> (None, rw1)
         | (Some rerr, rw1) \<Rightarrow>
             if rerr = PanicError ErrAbortHandler then (Some rerr, rw1)
             else
               (case rerr of
                  PanicValue v \<Rightarrow> (Some rerr, rw1)
                | PanicError err \<Rightarrow>
                    let ierr = Wrap err 0 [];
                        rw2 = (if ShouldReport ierr then rw1 @ [Report err r] else rw1);
                        rw3 = rw2 @ [LogResponse reqID r (StatusCode ierr) (Some ierr)];
                        rw4 = rw3 @ [HeaderSet ''Content-Type'' ''text/plain''];
                        rw5 = rw4 @ [WriteHeader (StatusCode ierr)]
                    in (None,
                        if DevelopmentErrorsMode cfg
                        then rw5 @ [Write (ierror_Error ierr)]
                        else rw5 @ [Write (PublicMessage ierr)]))))"

section \<open>Handlers\<close>

definition imgproxyIsRunningMsg :: string where
  "imgproxyIsRunningMsg = ''imgproxy is running''"

text \<open>\<^verbatim>\<open>handleHealth\<close>: the argument \<open>vips_Health\<close> is the result of \<^verbatim>\<open>vips.Health()\<close>,
  \<open>None\<close> for \<^verbatim>\<open>nil\<close>.\<close>

definition handleHealth :: "go_error option \<Rightarrow> handler" where
  "handleHealth vips_Health =
     (\<lambda>reqID r rw.
        let (status, msg, ierr) =
              (case vips_Health of
                 None \<Rightarrow> (StatusOK, imgproxyIsRunningMsg, None)
               | Some err \<Rightarrow> (StatusInternalServerError, ''Error'', Some (Wrap err 1 [])));
            msg = (if length msg = 0 then '' '' else msg);
            rw1 = (case ierr of
                     None \<Rightarrow> rw
                   | Some e \<Rightarrow> rw @ [LogResponse reqID r status (Some e)]);
            rw2 = rw1 @ [HeaderSet ''Content-Type'' ''text/plain''];
            rw3 = rw2 @ [HeaderSet ''Cache-Control'' ''no-cache''];
            rw4 = rw3 @ [WriteHeader status]
        in (None, rw4 @ [Write msg]))"

definition handleHead :: handler where
  "handleHead = (\<lambda>reqID r rw. (None, rw @ [LogResponse reqID r 200 None] @ [WriteHeader 200]))"

section \<open>Router and server\<close>

text \<open>Modelled from the spec: package \<^verbatim>\<open>router\<close> is not part of the sources at hand. A
  route entry is a (method, path, handler, exact) tuple; entries are registered in
  order at build time, and one handler slot serves the health check.\<close>

record route =
  route_method :: string
  route_path :: string
  route_handler :: handler
  route_exact :: bool

record router =
  router_prefix :: string
  Routes :: "route list"
  HealthHandler :: "handler option"

definition router_New :: "string \<Rightarrow> router" where
  "router_New prefix = \<lparr>router_prefix = prefix, Routes = [], HealthHandler = None\<rparr>"

definition router_Add :: "string \<Rightarrow> string \<Rightarrow> handler \<Rightarrow> bool \<Rightarrow> router \<Rightarrow> router" where
  "router_Add m p h exact rt =
     rt\<lparr>Routes := Routes rt @
          [\<lparr>route_method = m, route_path = p, route_handler = h, route_exact = exact\<rparr>]\<rparr>"

definition GET :: "string \<Rightarrow> handler \<Rightarrow> bool \<Rightarrow> router \<Rightarrow> router" where
  "GET = router_Add ''GET''"

definition HEAD :: "string \<Rightarrow> handler \<Rightarrow> bool \<Rightarrow> router \<Rightarrow> router" where
  "HEAD = router_Add ''HEAD''"

definition OPTIONS :: "string \<Rightarrow> handler \<Rightarrow> bool \<Rightarrow> router \<Rightarrow> router" where
  "OPTIONS = router_Add ''OPTIONS''"

text \<open>
  \<^verbatim>\<open>buildRouter\<close>. The handlers \<^verbatim>\<open>handleLanding\<close> and \<^verbatim>\<open>handleProcessing\<close> live in
  other files and are arguments, as are \<^verbatim>\<open>metrics.Enabled()\<close> and the answer of
  \<^verbatim>\<open>vips.Health()\<close>.
\<close>

definition buildRouter ::
  "config \<Rightarrow> bool \<Rightarrow> go_error option \<Rightarrow> handler \<Rightarrow> handler \<Rightarrow> router" where
  "buildRouter cfg metrics_Enabled vips_Health handleLanding handleProcessing =
     (let r = router_New (PathPrefix cfg);
          r = GET ''/'' handleLanding True r;
          r = GET [] handleLanding True r;
          r = GET ''/''
                (withMetrics metrics_Enabled
                   (withPanicHandler cfg (withCORS cfg (withSecret cfg handleProcessing))))
                False r;
          r = HEAD ''/'' (withCORS cfg handleHead) False r;
          r = OPTIONS ''/'' (withCORS cfg handleHead) False r
      in r\<lparr>HealthHandler := Some (handleHealth vips_Health)\<rparr>)"

text \<open>
  A listener is the one \<^verbatim>\<open>reuseport.Listen\<close> bound to a network and an address, or
  that listener wrapped by \<^verbatim>\<open>netutil.LimitListener\<close> with its limit.
\<close>

datatype listener =
    Bound string string
  | LimitListener listener go_int

text \<open>
  The fields of \<^verbatim>\<open>http.Server\<close> that \<^verbatim>\<open>startServer\<close> sets. Keep-alives are enabled in
  a fresh server and \<^verbatim>\<open>IdleTimeout\<close> is zero. \<open>serving\<close> is the listener handed to
  \<^verbatim>\<open>s.Serve\<close>; \<open>ErrorLog\<close> is the field the error logger tags its lines with.
\<close>

record server =
  Handler :: router
  ReadTimeout :: duration
  MaxHeaderBytes :: go_int
  ErrorLog :: "string \<times> string"
  IdleTimeout :: duration
  keepAlivesEnabled :: bool
  serving :: listener

definition Second :: duration where
  "Second = 1000000000"

text \<open>
  \<^verbatim>\<open>startServer\<close>. The argument \<open>listen\<close> is \<^verbatim>\<open>reuseport.Listen\<close>, which fails or
  binds; \<open>rt\<close> is the router \<^verbatim>\<open>buildRouter()\<close> returns. Serving itself runs in a
  goroutine of its own and is not part of the value returned.
\<close>

definition startServer ::
  "config \<Rightarrow> (string \<Rightarrow> string \<Rightarrow> go_error + listener) \<Rightarrow> router \<Rightarrow> go_error + server" where
  "startServer cfg listen rt =
     (case listen (Network cfg) (Bind cfg) of
        Inl err \<Rightarrow> Inl (OtherError (''Can'' @ [CHR 0x27] @ ''t start server: '' @ Error_msg err))
      | Inr l0 \<Rightarrow>
          let l = (if 0 < sint (MaxClients cfg) then LimitListener l0 (MaxClients cfg) else l0);
              s = \<lparr>Handler = rt,
                   ReadTimeout = ReadRequestTimeout cfg * Second,
                   MaxHeaderBytes = push_bit 20 1,
                   ErrorLog = (''source'', ''http_server''),
                   IdleTimeout = 0,
                   keepAlivesEnabled = True,
                   serving = l\<rparr>;
              s = (if 0 < sint (KeepAliveTimeout cfg)
                   then s\<lparr>IdleTimeout := KeepAliveTimeout cfg * Second\<rparr>
                   else s\<lparr>keepAlivesEnabled := False\<rparr>)
          in Inr s)"

section \<open>Observations and sample inputs\<close>

text \<open>The status codes passed to \<^verbatim>\<open>rw.WriteHeader\<close> and the bodies passed to
  \<^verbatim>\<open>rw.Write\<close> in a trace, in order.\<close>

fun statuses :: "event list \<Rightarrow> int list" where
  "statuses [] = []"
| "statuses (WriteHeader s # es) = s # statuses es"
| "statuses (_ # es) = statuses es"

fun bodies :: "event list \<Rightarrow> string list" where
  "bodies [] = []"
| "bodies (Write b # es) = b # bodies es"
| "bodies (_ # es) = bodies es"

text \<open>A configuration, a request carrying a given \<^verbatim>\<open>Authorization\<close> header, a
  listener that binds, and a handler that sets a header and then panics.\<close>

definition example_config :: config where
  "example_config =
     \<lparr>Network = ''tcp'', Bind = '':8080'', PathPrefix = [], MaxClients = 2048,
      ReadRequestTimeout = 10, KeepAliveTimeout = 10, AllowOrigin = ''*'',
      Secret = ''s3cret'', DevelopmentErrorsMode = False\<rparr>"

definition example_request :: "string \<Rightarrow> request" where
  "example_request auth =
     \<lparr>req_method = ''GET'', req_path = ''/'', req_header = [''Authorization'' \<mapsto> auth],
      req_diag = None, req_span = False\<rparr>"

definition example_listen :: "string \<Rightarrow> string \<Rightarrow> go_error + listener" where
  "example_listen network addr = Inr (Bound network addr)"

definition panicking :: "panic_value \<Rightarrow> handler" where
  "panicking p = (\<lambda>reqID r rw. (Some p, rw @ [HeaderSet ''X-Partial'' ''1'']))"

text \<open>A handler that has sent status 200 and part of a body when it panics.\<close>

definition panicking_after_write :: "panic_value \<Rightarrow> handler" where
  "panicking_after_write p =
     (\<lambda>reqID r rw. (Some p, rw @ [WriteHeader 200, Write ''partial'']))"

text \<open>The headers \<^verbatim>\<open>withCORS\<close> sets before it delegates.\<close>

definition cors_headers :: "config \<Rightarrow> event list" where
  "cors_headers cfg =
     (if AllowOrigin cfg = [] then []
      else [HeaderSet ''Access-Control-Allow-Origin'' (AllowOrigin cfg),
            HeaderSet ''Access-Control-Allow-Methods'' ''GET, OPTIONS''])"

text \<open>A configuration whose keep-alive timeout, taken in nanoseconds, exceeds
  \<^verbatim>\<open>int64\<close>.\<close>

definition overflow_config :: config where
  "overflow_config = example_config\<lparr>KeepAliveTimeout := 9223372037\<rparr>"

section \<open>Properties of the error taxonomy\<close>

lemma newInvalidSecretError_eq:
  "newInvalidSecretError = IError InvalidSecretError (Some 403) (Some ''Forbidden'') False"
  by (simp add: newInvalidSecretError_def Wrap_def StatusForbidden_def)

text \<open>
  C5. Each constructor of the taxonomy yields its fixed policy: the response-write
  failure has status 500 (no status is set, so the default applies), the public
  message "Failed to write response" and is reported, whatever its cause is; the
  invalid-URL failure has the status the caller gave, "Invalid URL", and is not
  reported; the rate-limit failure has 429, "Too many requests", not reported; the
  invalid-secret failure has 403, "Forbidden", not reported.
\<close>

theorem taxonomy_fixed_policy:
  "StatusCode (newResponseWriteError c) = 500
   \<and> statusCode (newResponseWriteError c) = None
   \<and> PublicMessage (newResponseWriteError c) = ''Failed to write response''
   \<and> ShouldReport (newResponseWriteError c)
   \<and> StatusCode (newInvalidURLErrorf status msg) = status
   \<and> PublicMessage (newInvalidURLErrorf status msg) = ''Invalid URL''
   \<and> \<not> ShouldReport (newInvalidURLErrorf status msg)
   \<and> StatusCode newTooManyRequestsError = 429
   \<and> PublicMessage newTooManyRequestsError = ''Too many requests''
   \<and> \<not> ShouldReport newTooManyRequestsError
   \<and> StatusCode newInvalidSecretError = 403
   \<and> PublicMessage newInvalidSecretError = ''Forbidden''
   \<and> \<not> ShouldReport newInvalidSecretError"
  by (simp add: newResponseWriteError_def newInvalidURLErrorf_def
      newTooManyRequestsError_def newInvalidSecretError_def Wrap_def StatusCode_def
      PublicMessage_def ShouldReport_def StatusInternalServerError_def
      StatusTooManyRequests_def StatusForbidden_def)

section \<open>Traces\<close>

lemma statuses_append: "statuses (xs @ ys) = statuses xs @ statuses ys"
  by (induction xs rule: statuses.induct) simp_all

lemma bodies_append: "bodies (xs @ ys) = bodies xs @ bodies ys"
  by (induction xs rule: bodies.induct) simp_all

section \<open>The secret check\<close>

subsection \<open>The constant-time comparison decides equality\<close>

lemma byte_xor_eq_0_iff: "a XOR b = 0 \<longleftrightarrow> a = b" for a b :: byte
proof
  assume "a XOR b = 0"
  then have "(a XOR b) XOR b = 0 XOR b" by simp
  then show "a = b" by (simp add: xor.assoc)
next
  assume "a = b"
  then show "a XOR b = 0" by simp
qed

lemma or_xor_zero_iff:
  "length x = length y \<Longrightarrow> or_xor v x y = 0 \<longleftrightarrow> v = 0 \<and> x = y"
proof (induction x y arbitrary: v rule: list_induct2)
  case Nil
  then show ?case by simp
next
  case (Cons a x b y)
  have "or_xor v (a # x) (b # y) = 0 \<longleftrightarrow> (v OR (a XOR b)) = 0 \<and> x = y"
    using Cons.IH [of "v OR (a XOR b)"] by simp
  also have "\<dots> \<longleftrightarrow> v = 0 \<and> a = b \<and> x = y"
    by (simp add: or_eq_0_iff byte_xor_eq_0_iff)
  finally show ?case by auto
qed

lemma byteeq_zero: "ConstantTimeByteEq 0 0 = 1"
  by (simp add: ConstantTimeByteEq_def)

lemma byteeq_nonzero:
  assumes "v \<noteq> 0"
  shows "ConstantTimeByteEq v 0 = 0"
proof -
  let ?w = "ucast v :: 32 word"
  have pos: "0 < unat v" using assms by (simp add: unat_gt_0)
  have "unat v < 2 ^ LENGTH(8)" by (rule unsigned_less)
  then have lt: "unat v < 256" by simp
  have "unat ?w = take_bit LENGTH(32) (unat v)" by (rule unsigned_ucast_eq)
  also have "\<dots> = unat v" using lt by (simp add: take_bit_nat_eq_self_iff)
  finally have u: "unat ?w = unat v" .
  have nz: "?w \<noteq> 0" using pos u unat_eq_0 [of ?w] by simp
  have "unat (?w - 1) = unat ?w - 1" using nz by (rule unat_minus_one)
  then have small: "unat (?w - 1) < 2 ^ 31" using u lt by simp
  have "unat (drop_bit 31 (?w - 1)) = drop_bit 31 (unat (?w - 1))"
    by (rule unat_drop_bit_eq)
  also have "\<dots> = 0" using small by (simp add: drop_bit_eq_div)
  finally have "drop_bit 31 (?w - 1) = 0" by (simp add: unat_eq_0)
  then show ?thesis by (simp add: ConstantTimeByteEq_def)
qed

lemma ConstantTimeCompare_iff: "ConstantTimeCompare x y = 1 \<longleftrightarrow> x = y"
proof (cases "length x = length y")
  case False
  then show ?thesis by (auto simp: ConstantTimeCompare_def)
next
  case True
  show ?thesis
  proof (cases "or_xor 0 x y = 0")
    case z: True
    then have "x = y" using or_xor_zero_iff [OF True, of 0] by simp
    then show ?thesis using z True by (simp add: ConstantTimeCompare_def byteeq_zero)
  next
    case nz: False
    then have "x \<noteq> y" using or_xor_zero_iff [OF True, of 0] by simp
    then show ?thesis using nz True by (simp add: ConstantTimeCompare_def byteeq_nonzero)
  qed
qed

lemma byte_of_char_inj:
  "(word_of_nat (of_char c) :: byte) = word_of_nat (of_char d) \<longleftrightarrow> c = d"
proof -
  have lt: "(of_char x :: nat) < 2 ^ 8" for x
    using nat_of_char_less_256 [of x] by simp
  have tb: "take_bit 8 (of_char x :: nat) = of_char x" for x
    by (rule take_bit_nat_eq_self) (rule lt)
  have "(word_of_nat (of_char c) :: byte) = word_of_nat (of_char d)
        \<longleftrightarrow> take_bit 8 (of_char c :: nat) = take_bit 8 (of_char d :: nat)"
    by (simp add: word_of_nat_eq_iff)
  also have "\<dots> \<longleftrightarrow> (of_char c :: nat) = of_char d"
    by (simp only: tb)
  finally show ?thesis by simp
qed

lemma bytes_of_inj: "bytes_of s = bytes_of t \<longleftrightarrow> s = t"
proof (induction s arbitrary: t)
  case Nil
  then show ?case by (auto simp: bytes_of_def)
next
  case (Cons c s)
  show ?case
  proof (cases t)
    case Nil
    then show ?thesis by (simp add: bytes_of_def)
  next
    case (Cons d t')
    then show ?thesis using Cons.IH [of t'] byte_of_char_inj [of c d]
      by (simp add: bytes_of_def)
  qed
qed


subsection \<open>\<^verbatim>\<open>withSecret\<close>\<close>

lemma withSecret_eq:
  assumes "Secret cfg \<noteq> []"
  shows "withSecret cfg h reqID r rw =
     (if Header_Get r ''Authorization'' = ''Bearer '' @ Secret cfg then h reqID r rw
      else (Some (PanicError (StructuredError newInvalidSecretError)), rw))"
  using assms by (simp add: withSecret_def Let_def ConstantTimeCompare_iff bytes_of_inj)

text \<open>
  C3. Without a configured secret \<^verbatim>\<open>withSecret\<close> is the identity. With one, the inner
  handler runs if and only if the \<^verbatim>\<open>Authorization\<close> header equals "Bearer " followed
  by the secret, byte for byte; any other header makes it panic with the
  invalid-secret failure (status 403, public message "Forbidden", not reported), and
  the outcome does not depend on the inner handler, which is not run.
\<close>

theorem withSecret_bearer:
  "(Secret cfg = [] \<longrightarrow> withSecret cfg h = h)
   \<and> (Secret cfg \<noteq> [] \<longrightarrow>
        withSecret cfg h reqID r rw =
          (if Header_Get r ''Authorization'' = ''Bearer '' @ Secret cfg then h reqID r rw
           else (Some (PanicError (StructuredError newInvalidSecretError)), rw)))
   \<and> StatusCode newInvalidSecretError = 403
   \<and> PublicMessage newInvalidSecretError = ''Forbidden''
   \<and> \<not> ShouldReport newInvalidSecretError"
proof -
  have "Secret cfg = [] \<longrightarrow> withSecret cfg h = h"
    by (simp add: withSecret_def)
  moreover have "StatusCode newInvalidSecretError = 403"
    and "PublicMessage newInvalidSecretError = ''Forbidden''"
    and "\<not> ShouldReport newInvalidSecretError"
    by (simp_all add: newInvalidSecretError_eq StatusCode_def PublicMessage_def ShouldReport_def)
  ultimately show ?thesis using withSecret_eq [of cfg h reqID r rw] by blast
qed

theorem withSecret_bearer_witness:
  "withSecret example_config handleHead ''r1'' (example_request ''Bearer s3cret'') []
     = (None, [LogResponse ''r1'' (example_request ''Bearer s3cret'') 200 None, WriteHeader 200])
   \<and> withSecret example_config handleHead ''r1'' (example_request ''bearer s3cret'') []
     = (Some (PanicError (StructuredError newInvalidSecretError)), [])
   \<and> withSecret example_config handleHead ''r1'' (example_request ''Bearer s3cre'') []
     = (Some (PanicError (StructuredError newInvalidSecretError)), [])
   \<and> withSecret example_config handleHead ''r1'' (example_request []) []
     = (Some (PanicError (StructuredError newInvalidSecretError)), [])
   \<and> withSecret (example_config\<lparr>Secret := []\<rparr>) handleHead = handleHead"
  using withSecret_bearer [of example_config handleHead "''r1''" "example_request ''Bearer s3cret''" "[]"]
    withSecret_bearer [of example_config handleHead "''r1''" "example_request ''bearer s3cret''" "[]"]
    withSecret_bearer [of example_config handleHead "''r1''" "example_request ''Bearer s3cre''" "[]"]
    withSecret_bearer [of example_config handleHead "''r1''" "example_request []" "[]"]
    withSecret_bearer [of "example_config\<lparr>Secret := []\<rparr>" handleHead]
  by (simp add: example_config_def example_request_def Header_Get_def handleHead_def)

section \<open>The panic handler\<close>

lemma withPanicHandler_recovered:
  assumes "h reqID (errorreport_SetMetadata (errorreport_StartRequest r0) ''Request ID'' reqID) rw
             = (Some (PanicError err), rw1)"
    and "err \<noteq> ErrAbortHandler"
  shows "withPanicHandler cfg h reqID r0 rw =
     (None,
      rw1 @ (if ShouldReport (Wrap err 0 [])
             then [Report err (errorreport_SetMetadata (errorreport_StartRequest r0) ''Request ID'' reqID)]
             else [])
          @ [LogResponse reqID (errorreport_SetMetadata (errorreport_StartRequest r0) ''Request ID'' reqID)
               (StatusCode (Wrap err 0 [])) (Some (Wrap err 0 [])),
             HeaderSet ''Content-Type'' ''text/plain'',
             WriteHeader (StatusCode (Wrap err 0 [])),
             Write (if DevelopmentErrorsMode cfg then ierror_Error (Wrap err 0 [])
                    else PublicMessage (Wrap err 0 []))])"
  using assms by (simp add: withPanicHandler_def Let_def)

lemma withPanicHandler_reraised:
  assumes "h reqID (errorreport_SetMetadata (errorreport_StartRequest r0) ''Request ID'' reqID) rw
             = (Some p, rw1)"
    and "p = PanicError ErrAbortHandler \<or> (\<exists>v. p = PanicValue v)"
  shows "withPanicHandler cfg h reqID r0 rw = (Some p, rw1)"
  using assms by (auto simp add: withPanicHandler_def Let_def)

lemma withPanicHandler_returned:
  assumes "h reqID (errorreport_SetMetadata (errorreport_StartRequest r0) ''Request ID'' reqID) rw
             = (None, rw1)"
  shows "withPanicHandler cfg h reqID r0 rw = (None, rw1)"
  using assms by (simp add: withPanicHandler_def Let_def)

text \<open>
  C1, with the writes of the inner handler taken into account. When the inner handler
  panics with an error that \<^verbatim>\<open>withPanicHandler\<close> renders (any error but
  \<^verbatim>\<open>http.ErrAbortHandler\<close>), the wrapper ends the request normally and adds to what
  the inner handler left exactly this: a report of the error if and only if the
  wrapped error says \<^verbatim>\<open>ShouldReport()\<close>, one log line, the header
  \<^verbatim>\<open>Content-Type: text/plain\<close>, one \<^verbatim>\<open>WriteHeader\<close> with the wrapped error's
  \<^verbatim>\<open>StatusCode()\<close>, and one \<^verbatim>\<open>Write\<close> whose body is \<^verbatim>\<open>Error()\<close> in development
  mode and \<^verbatim>\<open>PublicMessage()\<close> otherwise. If no status and no body had been written
  when the handler panicked, these are the only status and the only body of the
  request.
\<close>

theorem panic_rendered_once:
  assumes "r = errorreport_SetMetadata (errorreport_StartRequest r0) ''Request ID'' reqID"
    and "h reqID r rw = (Some (PanicError err), rw1)"
    and "err \<noteq> ErrAbortHandler"
    and "ierr = Wrap err 0 []"
    and "body = (if DevelopmentErrorsMode cfg then ierror_Error ierr else PublicMessage ierr)"
  shows "withPanicHandler cfg h reqID r0 rw =
           (None,
            rw1 @ (if ShouldReport ierr then [Report err r] else [])
                @ [LogResponse reqID r (StatusCode ierr) (Some ierr),
                   HeaderSet ''Content-Type'' ''text/plain'',
                   WriteHeader (StatusCode ierr),
                   Write body])
         \<and> statuses (snd (withPanicHandler cfg h reqID r0 rw)) = statuses rw1 @ [StatusCode ierr]
         \<and> bodies (snd (withPanicHandler cfg h reqID r0 rw)) = bodies rw1 @ [body]
         \<and> (statuses rw1 = [] \<and> bodies rw1 = []
              \<longrightarrow> statuses (snd (withPanicHandler cfg h reqID r0 rw)) = [StatusCode ierr]
                \<and> bodies (snd (withPanicHandler cfg h reqID r0 rw)) = [body])"
proof -
  have eq: "withPanicHandler cfg h reqID r0 rw =
           (None,
            rw1 @ (if ShouldReport ierr then [Report err r] else [])
                @ [LogResponse reqID r (StatusCode ierr) (Some ierr),
                   HeaderSet ''Content-Type'' ''text/plain'',
                   WriteHeader (StatusCode ierr),
                   Write body])"
    using withPanicHandler_recovered [of h reqID r0 rw err rw1 cfg] assms by simp
  show ?thesis
    by (simp add: eq statuses_append bodies_append)
qed

theorem panic_rendered_once_witness:
  "withPanicHandler example_config (panicking (PanicError (OtherError ''boom''))) ''r1''
      (example_request []) []
    = (None,
       [HeaderSet ''X-Partial'' ''1'',
        Report (OtherError ''boom'') ((example_request [])\<lparr>req_diag := Some [(''Request ID'', ''r1'')]\<rparr>),
        LogResponse ''r1'' ((example_request [])\<lparr>req_diag := Some [(''Request ID'', ''r1'')]\<rparr>) 500
          (Some (IError (OtherError ''boom'') None None True)),
        HeaderSet ''Content-Type'' ''text/plain'',
        WriteHeader 500,
        Write ''Internal Server Error''])
   \<and> withPanicHandler (example_config\<lparr>DevelopmentErrorsMode := True\<rparr>)
        (panicking (PanicError (StructuredError newInvalidSecretError))) ''r1''
        (example_request []) []
    = (None,
       [HeaderSet ''X-Partial'' ''1'',
        LogResponse ''r1'' ((example_request [])\<lparr>req_diag := Some [(''Request ID'', ''r1'')]\<rparr>) 403
          (Some newInvalidSecretError),
        HeaderSet ''Content-Type'' ''text/plain'',
        WriteHeader 403,
        Write ''Invalid secret''])"
  using panic_rendered_once [of
      "(example_request [])\<lparr>req_diag := Some [(''Request ID'', ''r1'')]\<rparr>"
      "example_request []" "''r1''"
      "panicking (PanicError (OtherError ''boom''))" "[]" "OtherError ''boom''"
      "[HeaderSet ''X-Partial'' ''1'']" "IError (OtherError ''boom'') None None True"
      "''Internal Server Error''" example_config]
    panic_rendered_once [of
      "(example_request [])\<lparr>req_diag := Some [(''Request ID'', ''r1'')]\<rparr>"
      "example_request []" "''r1''"
      "panicking (PanicError (StructuredError newInvalidSecretError))" "[]"
      "StructuredError newInvalidSecretError"
      "[HeaderSet ''X-Partial'' ''1'']" "newInvalidSecretError"
      "''Invalid secret''" "example_config\<lparr>DevelopmentErrorsMode := True\<rparr>"]
  by (simp add: example_config_def example_request_def panicking_def
      errorreport_StartRequest_def errorreport_SetMetadata_def Wrap_def
      StatusCode_def PublicMessage_def ShouldReport_def StatusInternalServerError_def
      newInvalidSecretError_eq)


text \<open>
  C1 as stated fails when the inner handler has written before it panics: the
  recovery writes all the same, so the request carries two statuses, the first of
  which is not the status of the error, and two bodies.
\<close>

theorem panic_after_write_two_responses:
  "panicking_after_write (PanicError (OtherError ''boom'')) ''r1''
      ((example_request [])\<lparr>req_diag := Some [(''Request ID'', ''r1'')]\<rparr>) []
     = (Some (PanicError (OtherError ''boom'')), [WriteHeader 200, Write ''partial''])
   \<and> fst (withPanicHandler example_config
          (panicking_after_write (PanicError (OtherError ''boom''))) ''r1''
          (example_request []) []) = None
   \<and> statuses (snd (withPanicHandler example_config
          (panicking_after_write (PanicError (OtherError ''boom''))) ''r1''
          (example_request []) [])) = [200, 500]
   \<and> bodies (snd (withPanicHandler example_config
          (panicking_after_write (PanicError (OtherError ''boom''))) ''r1''
          (example_request []) [])) = [''partial'', ''Internal Server Error'']
   \<and> StatusCode (Wrap (OtherError ''boom'') 0 []) = 500"
  by (simp add: example_config_def example_request_def panicking_after_write_def
      errorreport_StartRequest_def errorreport_SetMetadata_def withPanicHandler_def Let_def
      Wrap_def StatusCode_def PublicMessage_def ShouldReport_def StatusInternalServerError_def)

text \<open>
  C2, with the failure types the code recognizes. A panic of the inner handler leaves
  \<^verbatim>\<open>withPanicHandler\<close> again in exactly two cases: the value is
  \<^verbatim>\<open>http.ErrAbortHandler\<close>, or it does not implement \<^verbatim>\<open>error\<close>. In both the very same
  value is raised again and nothing is written. Every other panic, that is every
  error value, a \<^verbatim>\<open>*ierrors.Error\<close> or not, is turned into a normal return, with the
  status of the wrapped error and one body written after what the inner handler had
  written.
\<close>

theorem panic_escapes_iff:
  assumes "r = errorreport_SetMetadata (errorreport_StartRequest r0) ''Request ID'' reqID"
    and "h reqID r rw = (Some p, rw1)"
  shows "(p = PanicError ErrAbortHandler \<or> (\<exists>v. p = PanicValue v)
            \<longrightarrow> withPanicHandler cfg h reqID r0 rw = (Some p, rw1))
       \<and> (\<not> (p = PanicError ErrAbortHandler \<or> (\<exists>v. p = PanicValue v))
            \<longrightarrow> fst (withPanicHandler cfg h reqID r0 rw) = None
              \<and> length (statuses (snd (withPanicHandler cfg h reqID r0 rw)))
                  = length (statuses rw1) + 1
              \<and> length (bodies (snd (withPanicHandler cfg h reqID r0 rw)))
                  = length (bodies rw1) + 1)
       \<and> (\<forall>err. p = PanicError err \<and> err \<noteq> ErrAbortHandler
            \<longrightarrow> fst (withPanicHandler cfg h reqID r0 rw) = None
              \<and> statuses (snd (withPanicHandler cfg h reqID r0 rw))
                  = statuses rw1 @ [StatusCode (Wrap err 0 [])])"
proof (cases "p = PanicError ErrAbortHandler \<or> (\<exists>v. p = PanicValue v)")
  case True
  then show ?thesis
    using withPanicHandler_reraised [of h reqID r0 rw p rw1 cfg] assms by auto
next
  case False
  then obtain err where p: "p = PanicError err" and ne: "err \<noteq> ErrAbortHandler"
    by (cases p) auto
  have "withPanicHandler cfg h reqID r0 rw =
     (None,
      rw1 @ (if ShouldReport (Wrap err 0 []) then [Report err r] else [])
          @ [LogResponse reqID r (StatusCode (Wrap err 0 [])) (Some (Wrap err 0 [])),
             HeaderSet ''Content-Type'' ''text/plain'',
             WriteHeader (StatusCode (Wrap err 0 [])),
             Write (if DevelopmentErrorsMode cfg then ierror_Error (Wrap err 0 [])
                    else PublicMessage (Wrap err 0 []))])"
    using withPanicHandler_recovered [of h reqID r0 rw err rw1 cfg] assms p ne by simp
  then show ?thesis using False p
    by (simp add: statuses_append bodies_append)
qed

theorem panic_escapes_iff_witness:
  "withPanicHandler example_config (panicking (PanicError ErrAbortHandler)) ''r1''
      (example_request []) []
    = (Some (PanicError ErrAbortHandler), [HeaderSet ''X-Partial'' ''1''])
   \<and> withPanicHandler example_config (panicking (PanicValue ''index out of range'')) ''r1''
      (example_request []) []
    = (Some (PanicValue ''index out of range''), [HeaderSet ''X-Partial'' ''1''])
   \<and> fst (withPanicHandler example_config (panicking (PanicError (OtherError ''boom''))) ''r1''
      (example_request []) []) = None
   \<and> statuses (snd (withPanicHandler example_config
        (panicking (PanicError (OtherError ''boom''))) ''r1'' (example_request []) [])) = [500]"
  using panic_escapes_iff [of
      "(example_request [])\<lparr>req_diag := Some [(''Request ID'', ''r1'')]\<rparr>"
      "example_request []" "''r1''"
      "panicking (PanicError ErrAbortHandler)" "[]" "PanicError ErrAbortHandler"
      "[HeaderSet ''X-Partial'' ''1'']" example_config]
    panic_escapes_iff [of
      "(example_request [])\<lparr>req_diag := Some [(''Request ID'', ''r1'')]\<rparr>"
      "example_request []" "''r1''"
      "panicking (PanicValue ''index out of range'')" "[]" "PanicValue ''index out of range''"
      "[HeaderSet ''X-Partial'' ''1'']" example_config]
    panic_escapes_iff [of
      "(example_request [])\<lparr>req_diag := Some [(''Request ID'', ''r1'')]\<rparr>"
      "example_request []" "''r1''"
      "panicking (PanicError (OtherError ''boom''))" "[]" "PanicError (OtherError ''boom'')"
      "[HeaderSet ''X-Partial'' ''1'']" example_config]
  by (simp add: example_config_def example_request_def panicking_def
      errorreport_StartRequest_def errorreport_SetMetadata_def withPanicHandler_def Let_def Wrap_def
      StatusCode_def PublicMessage_def ShouldReport_def StatusInternalServerError_def)

text \<open>
  C2 as stated fails for an error that is no \<^verbatim>\<open>*ierrors.Error\<close>: a panic with a plain
  error is not raised again but wrapped and rendered with the default status.
\<close>

theorem plain_error_not_reraised:
  "panicking (PanicError (OtherError ''boom'')) ''r1''
      ((example_request [])\<lparr>req_diag := Some [(''Request ID'', ''r1'')]\<rparr>) []
     = (Some (PanicError (OtherError ''boom'')), [HeaderSet ''X-Partial'' ''1''])
   \<and> OtherError ''boom'' \<noteq> ErrAbortHandler
   \<and> fst (withPanicHandler example_config (panicking (PanicError (OtherError ''boom''))) ''r1''
          (example_request []) []) = None
   \<and> statuses (snd (withPanicHandler example_config
          (panicking (PanicError (OtherError ''boom''))) ''r1'' (example_request []) [])) = [500]
   \<and> bodies (snd (withPanicHandler example_config
          (panicking (PanicError (OtherError ''boom''))) ''r1'' (example_request []) []))
       = [''Internal Server Error'']"
  by (simp add: example_config_def example_request_def panicking_def
      errorreport_StartRequest_def errorreport_SetMetadata_def withPanicHandler_def Let_def
      Wrap_def StatusCode_def PublicMessage_def ShouldReport_def StatusInternalServerError_def)

section \<open>The health handler\<close>

text \<open>
  C4. If the health check succeeds, \<^verbatim>\<open>handleHealth\<close> writes status 200 with the body
  "imgproxy is running" and logs nothing; if it fails, it logs one response line
  carrying the wrapped failure and writes status 500 with the body "Error". Both set
  \<^verbatim>\<open>Content-Type: text/plain\<close> and \<^verbatim>\<open>Cache-Control: no-cache\<close>, and the one body
  written is never empty.
\<close>

theorem handleHealth_response:
  "handleHealth None reqID r rw =
     (None, rw @ [HeaderSet ''Content-Type'' ''text/plain'',
                  HeaderSet ''Cache-Control'' ''no-cache'',
                  WriteHeader 200,
                  Write ''imgproxy is running''])
   \<and> handleHealth (Some err) reqID r rw =
     (None, rw @ [LogResponse reqID r 500 (Some (Wrap err 1 [])),
                  HeaderSet ''Content-Type'' ''text/plain'',
                  HeaderSet ''Cache-Control'' ''no-cache'',
                  WriteHeader 500,
                  Write ''Error''])
   \<and> (\<exists>b. b \<noteq> [] \<and> bodies (snd (handleHealth health reqID r rw)) = bodies rw @ [b])"
proof -
  have ok: "handleHealth None reqID r rw =
     (None, rw @ [HeaderSet ''Content-Type'' ''text/plain'',
                  HeaderSet ''Cache-Control'' ''no-cache'',
                  WriteHeader 200,
                  Write ''imgproxy is running''])"
    by (simp add: handleHealth_def Let_def StatusOK_def imgproxyIsRunningMsg_def)
  have bad: "handleHealth (Some e) reqID r rw =
     (None, rw @ [LogResponse reqID r 500 (Some (Wrap e 1 [])),
                  HeaderSet ''Content-Type'' ''text/plain'',
                  HeaderSet ''Cache-Control'' ''no-cache'',
                  WriteHeader 500,
                  Write ''Error''])" for e
    by (simp add: handleHealth_def Let_def StatusInternalServerError_def)
  have "\<exists>b. b \<noteq> [] \<and> bodies (snd (handleHealth health reqID r rw)) = bodies rw @ [b]"
  proof (cases health)
    case None
    then show ?thesis by (simp add: ok bodies_append)
  next
    case (Some e)
    then show ?thesis by (simp add: bad bodies_append)
  qed
  then show ?thesis using ok bad [of err] by blast
qed

section \<open>The route table\<close>

lemma Routes_buildRouter:
  "Routes (buildRouter cfg m v landing processing) =
     [\<lparr>route_method = ''GET'', route_path = ''/'', route_handler = landing, route_exact = True\<rparr>,
      \<lparr>route_method = ''GET'', route_path = [], route_handler = landing, route_exact = True\<rparr>,
      \<lparr>route_method = ''GET'', route_path = ''/'',
       route_handler = withMetrics m (withPanicHandler cfg (withCORS cfg (withSecret cfg processing))),
       route_exact = False\<rparr>,
      \<lparr>route_method = ''HEAD'', route_path = ''/'', route_handler = withCORS cfg handleHead,
       route_exact = False\<rparr>,
      \<lparr>route_method = ''OPTIONS'', route_path = ''/'', route_handler = withCORS cfg handleHead,
       route_exact = False\<rparr>]"
  by (simp add: buildRouter_def router_New_def router_Add_def GET_def HEAD_def OPTIONS_def)

lemma withCORS_eq: "withCORS cfg h reqID r rw = h reqID r (rw @ cors_headers cfg)"
  by (simp add: withCORS_def cors_headers_def)

text \<open>
  C6. The one non-exact \<^verbatim>\<open>GET /\<close> route that \<^verbatim>\<open>buildRouter\<close> registers, the
  processing route, has the handler nested as metrics, panic handler, CORS, secret
  check, processing handler, from the outside in; the other two \<^verbatim>\<open>GET\<close> routes are
  the landing page. The order shows in a run: with metrics on, a request that fails
  the secret check gets the span opened first, then the CORS headers, then the 403
  rendered by the panic handler, and the span closed last.
\<close>

theorem main_route_nesting:
  "[route_handler rt. rt \<leftarrow> Routes (buildRouter cfg m v landing processing),
      route_method rt = ''GET'' \<and> \<not> route_exact rt]
     = [withMetrics m (withPanicHandler cfg (withCORS cfg (withSecret cfg processing)))]
   \<and> [route_handler rt. rt \<leftarrow> Routes (buildRouter cfg m v landing processing),
        route_method rt = ''GET'' \<and> route_exact rt] = [landing, landing]
   \<and> (Secret cfg \<noteq> [] \<and> Header_Get r0 ''Authorization'' \<noteq> ''Bearer '' @ Secret cfg
        \<longrightarrow> withMetrics True (withPanicHandler cfg (withCORS cfg (withSecret cfg processing)))
              reqID r0 rw
            = (None,
               rw @ [MetricsStart] @ cors_headers cfg
                  @ [LogResponse reqID
                       (errorreport_SetMetadata
                          (errorreport_StartRequest (r0\<lparr>req_span := True\<rparr>)) ''Request ID'' reqID)
                       403 (Some newInvalidSecretError),
                     HeaderSet ''Content-Type'' ''text/plain'',
                     WriteHeader 403,
                     Write (if DevelopmentErrorsMode cfg then ''Invalid secret'' else ''Forbidden'')]
                  @ [MetricsCancel]))"
proof -
  let ?r = "errorreport_SetMetadata (errorreport_StartRequest (r0\<lparr>req_span := True\<rparr>))
              ''Request ID'' reqID"
  have hdr: "Header_Get ?r ''Authorization'' = Header_Get r0 ''Authorization''"
    by (simp add: Header_Get_def errorreport_SetMetadata_def errorreport_StartRequest_def)
  have inner: "withCORS cfg (withSecret cfg processing) reqID ?r (rw @ [MetricsStart])
      = (Some (PanicError (StructuredError newInvalidSecretError)),
         rw @ [MetricsStart] @ cors_headers cfg)"
    if "Secret cfg \<noteq> []" "Header_Get r0 ''Authorization'' \<noteq> ''Bearer '' @ Secret cfg"
    using that by (simp add: withCORS_eq withSecret_eq hdr)
  have w: "Wrap (StructuredError newInvalidSecretError) 0 [] = newInvalidSecretError"
    by (simp add: Wrap_def)
  have pol: "StatusCode newInvalidSecretError = 403" "\<not> ShouldReport newInvalidSecretError"
    "PublicMessage newInvalidSecretError = ''Forbidden''"
    "ierror_Error newInvalidSecretError = ''Invalid secret''"
    by (simp_all add: newInvalidSecretError_eq StatusCode_def ShouldReport_def PublicMessage_def)
  have mid: "withPanicHandler cfg (withCORS cfg (withSecret cfg processing)) reqID
               (r0\<lparr>req_span := True\<rparr>) (rw @ [MetricsStart])
      = (None,
         rw @ [MetricsStart] @ cors_headers cfg
            @ [LogResponse reqID ?r 403 (Some newInvalidSecretError),
               HeaderSet ''Content-Type'' ''text/plain'',
               WriteHeader 403,
               Write (if DevelopmentErrorsMode cfg then ''Invalid secret'' else ''Forbidden'')])"
    if "Secret cfg \<noteq> []" "Header_Get r0 ''Authorization'' \<noteq> ''Bearer '' @ Secret cfg"
    using withPanicHandler_recovered [of "withCORS cfg (withSecret cfg processing)" reqID
        "r0\<lparr>req_span := True\<rparr>" "rw @ [MetricsStart]" "StructuredError newInvalidSecretError"
        "rw @ [MetricsStart] @ cors_headers cfg" cfg] inner [OF that]
    by (simp add: w pol)
  have outer: "Secret cfg \<noteq> [] \<and> Header_Get r0 ''Authorization'' \<noteq> ''Bearer '' @ Secret cfg
        \<longrightarrow> withMetrics True (withPanicHandler cfg (withCORS cfg (withSecret cfg processing)))
              reqID r0 rw
            = (None,
               rw @ [MetricsStart] @ cors_headers cfg
                  @ [LogResponse reqID ?r 403 (Some newInvalidSecretError),
                     HeaderSet ''Content-Type'' ''text/plain'',
                     WriteHeader 403,
                     Write (if DevelopmentErrorsMode cfg then ''Invalid secret'' else ''Forbidden'')]
                  @ [MetricsCancel])"
    using mid by (simp add: withMetrics_def)
  have routes: "[route_handler rt. rt \<leftarrow> Routes (buildRouter cfg m v landing processing),
      route_method rt = ''GET'' \<and> \<not> route_exact rt]
     = [withMetrics m (withPanicHandler cfg (withCORS cfg (withSecret cfg processing)))]"
    "[route_handler rt. rt \<leftarrow> Routes (buildRouter cfg m v landing processing),
        route_method rt = ''GET'' \<and> route_exact rt] = [landing, landing]"
    by (simp_all add: Routes_buildRouter)
  show ?thesis using routes outer by blast
qed

theorem main_route_nesting_witness:
  "[route_handler rt. rt \<leftarrow> Routes (buildRouter example_config True None handleHead handleHead),
      route_method rt = ''GET'' \<and> \<not> route_exact rt]
     = [withMetrics True (withPanicHandler example_config
          (withCORS example_config (withSecret example_config handleHead)))]
   \<and> withMetrics True (withPanicHandler example_config
          (withCORS example_config (withSecret example_config handleHead)))
        ''r1'' (example_request ''Bearer wrong'') []
      = (None,
         [MetricsStart,
          HeaderSet ''Access-Control-Allow-Origin'' ''*'',
          HeaderSet ''Access-Control-Allow-Methods'' ''GET, OPTIONS'',
          LogResponse ''r1''
            ((example_request ''Bearer wrong'')
               \<lparr>req_diag := Some [(''Request ID'', ''r1'')], req_span := True\<rparr>)
            403 (Some newInvalidSecretError),
          HeaderSet ''Content-Type'' ''text/plain'',
          WriteHeader 403,
          Write ''Forbidden'',
          MetricsCancel])"
  using main_route_nesting [of example_config True None handleHead handleHead
      "example_request ''Bearer wrong''" "''r1''" "[]"]
  by (simp add: example_config_def example_request_def Header_Get_def cors_headers_def
      errorreport_StartRequest_def errorreport_SetMetadata_def)

text \<open>
  C8. The routes registered for \<^verbatim>\<open>HEAD\<close> and \<^verbatim>\<open>OPTIONS\<close> are one each, on "/",
  with the handler \<^verbatim>\<open>withCORS(handleHead)\<close> and nothing else around it. For every
  configuration, with or without a secret, and every request that handler returns
  normally, sets the CORS headers if an origin is configured, logs the response,
  writes status 200 and writes no body.
\<close>

theorem head_options_cors_only:
  "[(route_path rt, route_handler rt, route_exact rt).
      rt \<leftarrow> Routes (buildRouter cfg m v landing processing), route_method rt = ''HEAD'']
     = [(''/'', withCORS cfg handleHead, False)]
   \<and> [(route_path rt, route_handler rt, route_exact rt).
      rt \<leftarrow> Routes (buildRouter cfg m v landing processing), route_method rt = ''OPTIONS'']
     = [(''/'', withCORS cfg handleHead, False)]
   \<and> withCORS cfg handleHead reqID r rw
     = (None, rw @ cors_headers cfg @ [LogResponse reqID r 200 None, WriteHeader 200])
   \<and> statuses (snd (withCORS cfg handleHead reqID r rw)) = statuses rw @ [200]
   \<and> bodies (snd (withCORS cfg handleHead reqID r rw)) = bodies rw"
proof -
  have st: "statuses (cors_headers cfg) = []" and bo: "bodies (cors_headers cfg) = []"
    by (simp_all add: cors_headers_def)
  have run: "withCORS cfg handleHead reqID r rw
     = (None, rw @ cors_headers cfg @ [LogResponse reqID r 200 None, WriteHeader 200])"
    by (simp add: withCORS_eq handleHead_def)
  show ?thesis
    by (simp add: Routes_buildRouter run statuses_append bodies_append st bo)
qed


section \<open>The server\<close>

lemma sint_Second: "sint Second = 1000000000"
  by (simp add: Second_def)

lemma sint_seconds:
  fixes x :: go_int
  assumes "0 \<le> sint x" and "sint x \<le> 9223372036"
  shows "sint (x * Second) = sint x * 1000000000"
proof -
  have "sint (x * Second) = signed_take_bit (LENGTH(64) - 1) (sint x * sint Second)"
    by (rule sint_word_ariths)
  also have "\<dots> = signed_take_bit 63 (sint x * 1000000000)"
    by (simp add: sint_Second)
  also have "\<dots> = sint x * 1000000000"
    using assms by (simp add: signed_take_bit_int_eq_self)
  finally show ?thesis .
qed

lemma startServer_Inr:
  assumes "startServer cfg listen rt = Inr s"
  obtains l0 where "listen (Network cfg) (Bind cfg) = Inr l0"
    and "s = (if 0 < sint (KeepAliveTimeout cfg)
              then \<lparr>Handler = rt, ReadTimeout = ReadRequestTimeout cfg * Second,
                    MaxHeaderBytes = push_bit 20 1, ErrorLog = (''source'', ''http_server''),
                    IdleTimeout = KeepAliveTimeout cfg * Second, keepAlivesEnabled = True,
                    serving = (if 0 < sint (MaxClients cfg)
                               then LimitListener l0 (MaxClients cfg) else l0)\<rparr>
              else \<lparr>Handler = rt, ReadTimeout = ReadRequestTimeout cfg * Second,
                    MaxHeaderBytes = push_bit 20 1, ErrorLog = (''source'', ''http_server''),
                    IdleTimeout = 0, keepAlivesEnabled = False,
                    serving = (if 0 < sint (MaxClients cfg)
                               then LimitListener l0 (MaxClients cfg) else l0)\<rparr>)"
  using assms by (auto simp add: startServer_def Let_def split: sum.splits if_splits)

text \<open>
  C7, with the range of the timeout made explicit. Let \<^verbatim>\<open>startServer\<close> return a
  server. If the keep-alive timeout is
  positive, keep-alives stay enabled and the idle timeout is the timeout times
  \<^verbatim>\<open>time.Second\<close> in \<^verbatim>\<open>int64\<close> arithmetic, which is that many seconds as long as the
  timeout is at most 9223372036. If the timeout is zero or negative, keep-alives are
  disabled. The read timeout is always the read-request timeout times
  \<^verbatim>\<open>time.Second\<close>, with the same bound for it to be that many seconds.
\<close>

theorem server_timeouts:
  assumes "startServer cfg listen rt = Inr s"
  shows "(0 < sint (KeepAliveTimeout cfg) \<and> sint (KeepAliveTimeout cfg) \<le> 9223372036
            \<longrightarrow> keepAlivesEnabled s
              \<and> sint (IdleTimeout s) = sint (KeepAliveTimeout cfg) * 1000000000)
       \<and> (0 < sint (KeepAliveTimeout cfg)
            \<longrightarrow> keepAlivesEnabled s \<and> IdleTimeout s = KeepAliveTimeout cfg * Second)
       \<and> (sint (KeepAliveTimeout cfg) \<le> 0 \<longrightarrow> \<not> keepAlivesEnabled s)
       \<and> ReadTimeout s = ReadRequestTimeout cfg * Second
       \<and> (0 \<le> sint (ReadRequestTimeout cfg) \<and> sint (ReadRequestTimeout cfg) \<le> 9223372036
            \<longrightarrow> sint (ReadTimeout s) = sint (ReadRequestTimeout cfg) * 1000000000)"
proof -
  from assms obtain l0 where
    s: "s = (if 0 < sint (KeepAliveTimeout cfg)
              then \<lparr>Handler = rt, ReadTimeout = ReadRequestTimeout cfg * Second,
                    MaxHeaderBytes = push_bit 20 1, ErrorLog = (''source'', ''http_server''),
                    IdleTimeout = KeepAliveTimeout cfg * Second, keepAlivesEnabled = True,
                    serving = (if 0 < sint (MaxClients cfg)
                               then LimitListener l0 (MaxClients cfg) else l0)\<rparr>
              else \<lparr>Handler = rt, ReadTimeout = ReadRequestTimeout cfg * Second,
                    MaxHeaderBytes = push_bit 20 1, ErrorLog = (''source'', ''http_server''),
                    IdleTimeout = 0, keepAlivesEnabled = False,
                    serving = (if 0 < sint (MaxClients cfg)
                               then LimitListener l0 (MaxClients cfg) else l0)\<rparr>)"
    by (rule startServer_Inr)
  have rd: "ReadTimeout s = ReadRequestTimeout cfg * Second"
    by (simp add: s)
  have ka: "0 < sint (KeepAliveTimeout cfg)
            \<longrightarrow> keepAlivesEnabled s \<and> IdleTimeout s = KeepAliveTimeout cfg * Second"
    by (simp add: s)
  have off: "sint (KeepAliveTimeout cfg) \<le> 0 \<longrightarrow> \<not> keepAlivesEnabled s"
    by (simp add: s)
  have idle: "0 < sint (KeepAliveTimeout cfg) \<and> sint (KeepAliveTimeout cfg) \<le> 9223372036
            \<longrightarrow> keepAlivesEnabled s
              \<and> sint (IdleTimeout s) = sint (KeepAliveTimeout cfg) * 1000000000"
    using ka sint_seconds [of "KeepAliveTimeout cfg"] by simp
  have rds: "0 \<le> sint (ReadRequestTimeout cfg) \<and> sint (ReadRequestTimeout cfg) \<le> 9223372036
            \<longrightarrow> sint (ReadTimeout s) = sint (ReadRequestTimeout cfg) * 1000000000"
    using rd sint_seconds [of "ReadRequestTimeout cfg"] by simp
  show ?thesis using rd ka off idle rds by blast
qed

theorem server_timeouts_witness:
  "startServer example_config example_listen (router_New [])
     = Inr \<lparr>Handler = router_New [], ReadTimeout = 10000000000, MaxHeaderBytes = 1048576,
            ErrorLog = (''source'', ''http_server''), IdleTimeout = 10000000000,
            keepAlivesEnabled = True, serving = LimitListener (Bound ''tcp'' '':8080'') 2048\<rparr>
   \<and> startServer (example_config\<lparr>KeepAliveTimeout := 0\<rparr>) example_listen (router_New [])
     = Inr \<lparr>Handler = router_New [], ReadTimeout = 10000000000, MaxHeaderBytes = 1048576,
            ErrorLog = (''source'', ''http_server''), IdleTimeout = 0,
            keepAlivesEnabled = False, serving = LimitListener (Bound ''tcp'' '':8080'') 2048\<rparr>"
  using server_timeouts [of example_config example_listen "router_New []"
      "\<lparr>Handler = router_New [], ReadTimeout = 10000000000, MaxHeaderBytes = 1048576,
            ErrorLog = (''source'', ''http_server''), IdleTimeout = 10000000000,
            keepAlivesEnabled = True, serving = LimitListener (Bound ''tcp'' '':8080'') 2048\<rparr>"]
    server_timeouts [of "example_config\<lparr>KeepAliveTimeout := 0\<rparr>" example_listen "router_New []"
      "\<lparr>Handler = router_New [], ReadTimeout = 10000000000, MaxHeaderBytes = 1048576,
            ErrorLog = (''source'', ''http_server''), IdleTimeout = 0,
            keepAlivesEnabled = False, serving = LimitListener (Bound ''tcp'' '':8080'') 2048\<rparr>"]
  by (simp add: example_config_def example_listen_def startServer_def Let_def Second_def)

text \<open>
  C7 as stated fails where the product overflows: a keep-alive timeout of 9223372037
  seconds is positive, and the idle timeout of the server is negative.
\<close>

theorem idle_timeout_overflow:
  "0 < sint (KeepAliveTimeout overflow_config)
   \<and> map_sum Error_msg (\<lambda>s. (keepAlivesEnabled s, sint (IdleTimeout s)))
        (startServer overflow_config example_listen (router_New []))
       = Inr (True, - 9223372036709551616)
   \<and> sint (KeepAliveTimeout overflow_config) * 1000000000 = 9223372037000000000"
  by (simp add: overflow_config_def example_config_def example_listen_def startServer_def
      Let_def Second_def)

text \<open>The listener served is the bound one, wrapped with the limit exactly when
  \<^verbatim>\<open>config.MaxClients\<close> is positive.\<close>

lemma startServer_serving:
  assumes "startServer cfg listen rt = Inr s"
    and "listen (Network cfg) (Bind cfg) = Inr l0"
  shows "serving s = (if 0 < sint (MaxClients cfg) then LimitListener l0 (MaxClients cfg) else l0)"
  using assms by (auto simp add: startServer_def Let_def split: if_splits)

text \<open>
  C10. Every server \<^verbatim>\<open>startServer\<close> returns has \<^verbatim>\<open>MaxHeaderBytes\<close> equal to
  \<^verbatim>\<open>1 << 20\<close>, that is 1048576, whatever the configuration is.
\<close>

theorem max_header_bytes_fixed:
  assumes "startServer cfg listen rt = Inr s"
  shows "sint (MaxHeaderBytes s) = 2 ^ 20"
proof -
  from assms obtain l0 where
    "s = (if 0 < sint (KeepAliveTimeout cfg)
              then \<lparr>Handler = rt, ReadTimeout = ReadRequestTimeout cfg * Second,
                    MaxHeaderBytes = push_bit 20 1, ErrorLog = (''source'', ''http_server''),
                    IdleTimeout = KeepAliveTimeout cfg * Second, keepAlivesEnabled = True,
                    serving = (if 0 < sint (MaxClients cfg)
                               then LimitListener l0 (MaxClients cfg) else l0)\<rparr>
              else \<lparr>Handler = rt, ReadTimeout = ReadRequestTimeout cfg * Second,
                    MaxHeaderBytes = push_bit 20 1, ErrorLog = (''source'', ''http_server''),
                    IdleTimeout = 0, keepAlivesEnabled = False,
                    serving = (if 0 < sint (MaxClients cfg)
                               then LimitListener l0 (MaxClients cfg) else l0)\<rparr>)"
    by (rule startServer_Inr)
  then have "MaxHeaderBytes s = push_bit 20 1" by simp
  then show ?thesis by simp
qed

theorem max_header_bytes_fixed_witness:
  "sint (MaxHeaderBytes
     \<lparr>Handler = router_New [], ReadTimeout = 10000000000, MaxHeaderBytes = 1048576,
            ErrorLog = (''source'', ''http_server''), IdleTimeout = 10000000000,
            keepAlivesEnabled = True, serving = LimitListener (Bound ''tcp'' '':8080'') 2048\<rparr>)
     = 2 ^ 20
   \<and> startServer example_config example_listen (router_New [])
     = Inr \<lparr>Handler = router_New [], ReadTimeout = 10000000000, MaxHeaderBytes = 1048576,
            ErrorLog = (''source'', ''http_server''), IdleTimeout = 10000000000,
            keepAlivesEnabled = True, serving = LimitListener (Bound ''tcp'' '':8080'') 2048\<rparr>"
  using max_header_bytes_fixed [of example_config example_listen "router_New []"
      "\<lparr>Handler = router_New [], ReadTimeout = 10000000000, MaxHeaderBytes = 1048576,
            ErrorLog = (''source'', ''http_server''), IdleTimeout = 10000000000,
            keepAlivesEnabled = True, serving = LimitListener (Bound ''tcp'' '':8080'') 2048\<rparr>"]
  by (simp add: example_config_def example_listen_def startServer_def Let_def Second_def)

end
